theory Spec2Isabelle
  imports Complex_Main
begin

section \<open>Values, strings and dictionaries of the Python program\<close>

text \<open>
  A Python \<open>str\<close> is a sequence of Unicode code points, so a string is a list of code
  points here. \<open>asc\<close> turns an ASCII literal of the source into such a list; letters
  outside ASCII are written by their code point.
\<close>

type_synonym ustr = "nat list"

definition asc :: "string \<Rightarrow> ustr" where
  "asc s = map of_char s"

text \<open>The exceptions that the modelled code can raise or receive from its libraries.\<close>

datatype exn =
    PwTimeout
  | PwError
  | ValueError
  | OverflowError
  | KeyError
  | AttributeError
  | IntegrityError
  | InterfaceError
  | TypeError

subsection \<open>Floating-point numbers\<close>

text \<open>
  A non-negative double is \<open>Finite m e\<close>, of value \<open>m * 2 ^ e\<close>, or \<open>Infinity\<close>.
  \<open>to_double n d\<close> is the double nearest to the fraction \<open>n / d\<close> (ties to even, with
  gradual underflow below \<open>2 ^ -1022\<close> and overflow to infinity), which is what \<open>float\<close>
  returns for a decimal literal and what a multiplication of doubles returns for the
  exact product. \<open>py_int\<close> is \<open>int(x)\<close>.
\<close>

datatype pyfloat = Finite nat int | Infinity

fun bit_length :: "nat \<Rightarrow> nat" where
  "bit_length n = (if n = 0 then 0 else Suc (bit_length (n div 2)))"

declare bit_length.simps [simp del]

definition round_half_even :: "nat \<Rightarrow> nat \<Rightarrow> nat" where
  "round_half_even n d =
     (let f = n div d; r = n mod d
      in if 2 * r < d then f else if 2 * r > d then f + 1 else if even f then f else f + 1)"

definition floor_log2 :: "nat \<Rightarrow> nat \<Rightarrow> int" where
  "floor_log2 n d =
     (let k = int (bit_length n) - int (bit_length d)
      in if d * 2 ^ nat k \<le> n * 2 ^ nat (- k) then k else k - 1)"

definition to_double :: "nat \<Rightarrow> nat \<Rightarrow> pyfloat" where
  "to_double n d =
     (if n = 0 then Finite 0 0
      else let e = max (floor_log2 n d - 52) (- 1074);
               m = round_half_even (n * 2 ^ nat (- e)) (d * 2 ^ nat e)
           in if e \<ge> 0 \<and> m * 2 ^ nat e \<ge> 2 ^ 1024 then Infinity else Finite m e)"

fun fmul :: "pyfloat \<Rightarrow> nat \<Rightarrow> pyfloat" where
  "fmul (Finite m e) k = to_double (m * k * 2 ^ nat e) (2 ^ nat (- e))"
| "fmul Infinity k = Infinity"

fun py_int :: "pyfloat \<Rightarrow> exn + int" where
  "py_int (Finite m e) = Inr (int (m * 2 ^ nat e div 2 ^ nat (- e)))"
| "py_int Infinity = Inl OverflowError"


text \<open>
  The values the program keeps in its dictionaries and binds to SQL parameters.
  \<open>VNone\<close> is Python's \<open>None\<close> and SQL's \<open>NULL\<close>.
\<close>

datatype val =
    VNone
  | VInt int
  | VStr ustr
  | VFloat pyfloat
  | VList "val list"
  | VDict "string \<Rightarrow> val option"

type_synonym dict = "string \<Rightarrow> val option"

text \<open>\<open>d.get(k)\<close> and \<open>d.get(k, default)\<close>.\<close>

definition dict_get :: "dict \<Rightarrow> string \<Rightarrow> val" where
  "dict_get d k = (case d k of None \<Rightarrow> VNone | Some v \<Rightarrow> v)"

definition dict_get_default :: "dict \<Rightarrow> string \<Rightarrow> val \<Rightarrow> val" where
  "dict_get_default d k dflt = (case d k of None \<Rightarrow> dflt | Some v \<Rightarrow> v)"

text \<open>Python truthiness, as used by \<open>if x:\<close> and \<open>if not x:\<close>.\<close>

fun truthy :: "val \<Rightarrow> bool" where
  "truthy VNone = False"
| "truthy (VInt i) = (i \<noteq> 0)"
| "truthy (VStr s) = (s \<noteq> [])"
| "truthy (VFloat x) = (case x of Finite m e \<Rightarrow> m \<noteq> 0 | Infinity \<Rightarrow> True)"
| "truthy (VList xs) = (xs \<noteq> [])"
| "truthy (VDict d) = (d \<noteq> Map.empty)"

subsection \<open>Character classes\<close>

text \<open>
  \<open>str.isspace\<close>, \<open>str.strip\<close>, \<open>str.split\<close> and the pattern \<open>\s\<close> share one set
  of whitespace code points.
\<close>

definition is_space :: "nat \<Rightarrow> bool" where
  "is_space c \<longleftrightarrow>
     (9 \<le> c \<and> c \<le> 13) \<or> (28 \<le> c \<and> c \<le> 32) \<or> c = 133 \<or> c = 160 \<or> c = 5760
     \<or> (8192 \<le> c \<and> c \<le> 8202) \<or> c = 8232 \<or> c = 8233 \<or> c = 8239 \<or> c = 8287
     \<or> c = 12288"

text \<open>
  Which code points are decimal digits (the pattern \<open>\d\<close>, and the digits \<open>int\<close> and
  \<open>float\<close> accept) and what \<open>str.lower\<close> returns come from the Unicode tables of the
  Python runtime. The tables are a parameter of the model; \<open>ucd_ok\<close> states the part of
  them that the theorems use: ASCII and the Cyrillic block U+0400 to U+045F, and that
  no whitespace is a digit.
\<close>

record ucd =
  decimal :: "nat \<Rightarrow> nat option"
  lower :: "ustr \<Rightarrow> ustr"

definition cyrillic :: "nat \<Rightarrow> bool" where
  "cyrillic c \<longleftrightarrow> 1024 \<le> c \<and> c \<le> 1119"

definition basic_decimal :: "nat \<Rightarrow> nat option" where
  "basic_decimal c = (if 48 \<le> c \<and> c \<le> 57 then Some (c - 48) else None)"

definition basic_lower :: "nat \<Rightarrow> nat" where
  "basic_lower c =
     (if 65 \<le> c \<and> c \<le> 90 then c + 32
      else if 1024 \<le> c \<and> c < 1040 then c + 80
      else if 1040 \<le> c \<and> c < 1072 then c + 32
      else c)"

definition ucd_ok :: "ucd \<Rightarrow> bool" where
  "ucd_ok U \<longleftrightarrow>
     (\<forall>c. c < 128 \<or> cyrillic c \<longrightarrow> decimal U c = basic_decimal c) \<and>
     (\<forall>c. is_space c \<longrightarrow> decimal U c = None) \<and>
     (\<forall>s. (\<forall>c \<in> set s. c < 128 \<or> cyrillic c) \<longrightarrow> lower U s = map basic_lower s)"

definition basic_ucd :: ucd where
  "basic_ucd = \<lparr> decimal = basic_decimal, lower = map basic_lower \<rparr>"

definition is_digit :: "ucd \<Rightarrow> nat \<Rightarrow> bool" where
  "is_digit U c \<longleftrightarrow> decimal U c \<noteq> None"

subsection \<open>String helpers\<close>

definition starts_with :: "ustr \<Rightarrow> ustr \<Rightarrow> bool" where
  "starts_with s p \<longleftrightarrow> take (length p) s = p"

text \<open>\<open>needle in hay\<close> for strings.\<close>

fun contains :: "ustr \<Rightarrow> ustr \<Rightarrow> bool" where
  "contains needle [] = (needle = [])"
| "contains needle (h # hay) = (starts_with (h # hay) needle \<or> contains needle hay)"

definition strip :: "ustr \<Rightarrow> ustr" where
  "strip s = rev (dropWhile is_space (rev (dropWhile is_space s)))"

subsection \<open>\_parse\_number\<close>

text \<open>
  \<open>str.replace\<close>: occurrences are replaced from the left and do not overlap;
  \<open>replace_from\<close> carries the number of characters of a matched occurrence that are
  still to be skipped.
\<close>

fun replace_from :: "ustr \<Rightarrow> ustr \<Rightarrow> nat \<Rightarrow> ustr \<Rightarrow> ustr" where
  "replace_from old new k [] = []"
| "replace_from old new k (c # cs) =
     (if k > 0 then replace_from old new (k - 1) cs
      else if starts_with (c # cs) old then new @ replace_from old new (length old - 1) cs
      else c # replace_from old new 0 cs)"

definition replace :: "ustr \<Rightarrow> ustr \<Rightarrow> ustr \<Rightarrow> ustr" where
  "replace old new s =
     (if old = [] then new @ concat (map (\<lambda>c. c # new) s) else replace_from old new 0 s)"

text \<open>
  \<open>re.match(r"([\d.]+)\s*[...]", text)\<close> for a set of letters: the group is the longest
  run of digits and dots at the start, which whitespace and then one of the letters
  must follow (no digit is whitespace or a letter, so the greedy match is the only one).
\<close>

definition numeric_char :: "ucd \<Rightarrow> nat \<Rightarrow> bool" where
  "numeric_char U c \<longleftrightarrow> is_digit U c \<or> c = 46"

definition match_magnitude :: "ucd \<Rightarrow> nat list \<Rightarrow> ustr \<Rightarrow> ustr option" where
  "match_magnitude U letters text =
     (let num = takeWhile (numeric_char U) text;
          rest = dropWhile is_space (dropWhile (numeric_char U) text)
      in case rest of
           [] \<Rightarrow> None
         | c # _ \<Rightarrow> if num \<noteq> [] \<and> c \<in> set letters then Some num else None)"

text \<open>
  \<open>int(digits)\<close> on a string of digits, and \<open>float(group)\<close> on a string of digits and
  dots: \<open>float\<close> raises \<open>ValueError\<close> unless there is a digit and at most one dot.
  (CPython's limit of 4300 digits for \<open>int\<close> is not modelled.)
\<close>

definition digits_value :: "ucd \<Rightarrow> ustr \<Rightarrow> nat" where
  "digits_value U s = fold (\<lambda>c acc. acc * 10 + (case decimal U c of Some v \<Rightarrow> v | None \<Rightarrow> 0)) s 0"

definition py_float :: "ucd \<Rightarrow> ustr \<Rightarrow> exn + pyfloat" where
  "py_float U g =
     (let ip = takeWhile (\<lambda>c. c \<noteq> 46) g; rest = dropWhile (\<lambda>c. c \<noteq> 46) g
      in if \<exists>c \<in> set g. \<not> numeric_char U c then Inl ValueError
         else case rest of
                [] \<Rightarrow> if ip = [] then Inl ValueError else Inr (to_double (digits_value U ip) 1)
              | _ # fp \<Rightarrow>
                  if 46 \<in> set fp \<or> (ip = [] \<and> fp = []) then Inl ValueError
                  else Inr (to_double (digits_value U (ip @ fp)) (10 ^ length fp)))"

definition scaled :: "ucd \<Rightarrow> ustr \<Rightarrow> nat \<Rightarrow> exn + int" where
  "scaled U g k = (case py_float U g of Inl e \<Rightarrow> Inl e | Inr x \<Rightarrow> py_int (fmul x k))"

text \<open>The letters are k, K, U+043A, U+041A and m, M, U+043C, U+041C.\<close>

definition parse_number :: "ucd \<Rightarrow> ustr option \<Rightarrow> exn + int" where
  "parse_number U text =
     (case text of
        None \<Rightarrow> Inr 0
      | Some t \<Rightarrow>
          if t = [] then Inr 0
          else
            let text = replace [160] [] (replace [44] [] (strip t)) in
            case match_magnitude U [107, 75, 1082, 1050] text of
              Some g \<Rightarrow> scaled U g 1000
            | None \<Rightarrow>
                (case match_magnitude U [109, 77, 1084, 1052] text of
                   Some g \<Rightarrow> scaled U g 1000000
                 | None \<Rightarrow>
                     let digits = filter (is_digit U) text
                     in if digits \<noteq> [] then Inr (int (digits_value U digits)) else Inr 0))"


section \<open>The store (db.py)\<close>

text \<open>
  A table is the list of its rows in insertion order; a row maps a column name to its
  value, \<open>VNone\<close> standing for \<open>NULL\<close>. A bound parameter is stored as it is given
  (SQLite's conversion of a value to the column's type affinity is not modelled).
  \<open>clock\<close> is what successive calls of \<open>datetime.utcnow().isoformat()\<close> return.
\<close>

type_synonym row = "string \<Rightarrow> val"

record db =
  snapshots :: "row list"
  authors :: "row list"
  author_snapshots :: "row list"
  projects :: "row list"
  project_tags :: "row list"
  search_results :: "row list"
  clock :: "nat \<Rightarrow> val"
  ticks :: nat

definition utcnow :: "db \<Rightarrow> val \<times> db" where
  "utcnow d = (clock d (ticks d), d\<lparr>ticks := Suc (ticks d)\<rparr>)"

text \<open>\<open>INTEGER PRIMARY KEY AUTOINCREMENT\<close>: one more than the largest id (no row is ever deleted).\<close>

definition next_id :: "row list \<Rightarrow> int" where
  "next_id rows = fold (\<lambda>r m. case r ''id'' of VInt i \<Rightarrow> max i m | _ \<Rightarrow> m) rows 0 + 1"

text \<open>SQL \<open>=\<close>: never true when a side is \<open>NULL\<close>.\<close>

definition sql_eq :: "val \<Rightarrow> val \<Rightarrow> bool" where
  "sql_eq a b \<longleftrightarrow> a \<noteq> VNone \<and> b \<noteq> VNone \<and> a = b"

definition coalesce :: "val \<Rightarrow> val \<Rightarrow> val" where
  "coalesce v old = (if v = VNone then old else v)"

text \<open>sqlite3 binds \<open>None\<close>, integers, floats and strings; a list or dict is refused.\<close>

fun bindable :: "val \<Rightarrow> bool" where
  "bindable (VList xs) = False"
| "bindable (VDict d) = False"
| "bindable v = True"

text \<open>
  Foreign keys are enforced (\<open>PRAGMA foreign_keys=ON\<close>): a non-null reference must be
  the id of a row of the parent table.
\<close>

definition references :: "val \<Rightarrow> row list \<Rightarrow> bool" where
  "references v parent \<longleftrightarrow> v = VNone \<or> (\<exists>r \<in> set parent. r ''id'' = v)"

subsection \<open>upsert\_project\<close>

definition project_fields :: "string list" where
  "project_fields =
    [''title'', ''url'', ''url_slug'', ''published_date'',
     ''publish_day_of_week'', ''publish_hour'', ''author_id'',
     ''module_count'', ''image_count'', ''video_count'', ''text_count'',
     ''embed_count'', ''description_length'', ''description_has_query_keywords'',
     ''title_keyword_match'', ''has_external_links'', ''external_link_count'',
     ''cover_image_url'', ''cover_image_width'', ''cover_image_height'',
     ''comments_count'', ''saves_count'', ''is_featured'', ''co_owners_count'',
     ''creative_fields'', ''tools_used'', ''is_my_project'']"

definition project_row :: "db \<Rightarrow> val \<Rightarrow> row option" where
  "project_row d bid = find (\<lambda>r. sql_eq (r ''behance_id'') bid) (projects d)"

definition project_update :: "dict \<Rightarrow> val \<Rightarrow> row \<Rightarrow> row" where
  "project_update data now r =
     (\<lambda>c. if c \<in> set project_fields then coalesce (dict_get data c) (r c)
          else if c = ''last_seen'' then now
          else r c)"

definition project_insert :: "dict \<Rightarrow> val \<Rightarrow> val \<Rightarrow> int \<Rightarrow> row" where
  "project_insert data bid now new_id =
     (\<lambda>c. if c \<in> set project_fields then dict_get data c
          else if c = ''behance_id'' then bid
          else if c = ''first_seen'' \<or> c = ''last_seen'' then now
          else if c = ''id'' then VInt new_id
          else VNone)"

definition upsert_project :: "dict \<Rightarrow> db \<Rightarrow> exn + (val \<times> db)" where
  "upsert_project data d0 =
     (let (now, d) = utcnow d0 in
      case data ''behance_id'' of
        None \<Rightarrow> Inl KeyError
      | Some bid \<Rightarrow>
          if \<not> bindable bid \<or> (\<exists>f \<in> set project_fields. \<not> bindable (dict_get data f))
          then Inl InterfaceError
          else
            (case project_row d bid of
               Some r \<Rightarrow>
                 let project_id = r ''id'' in
                 if \<not> references (dict_get data ''author_id'') (authors d) then Inl IntegrityError
                 else Inr (project_id,
                   d\<lparr>projects := map (\<lambda>r'. if sql_eq (r' ''id'') project_id
                                            then project_update data now r' else r')
                                     (projects d)\<rparr>)
             | None \<Rightarrow>
                 if bid = VNone \<or> \<not> references (dict_get data ''author_id'') (authors d)
                 then Inl IntegrityError
                 else
                   let project_id = next_id (projects d) in
                   Inr (VInt project_id,
                     d\<lparr>projects := projects d @ [project_insert data bid now project_id]\<rparr>)))"

subsection \<open>insert\_project\_tags\<close>

definition tag_row :: "int \<Rightarrow> val \<Rightarrow> ustr \<Rightarrow> row" where
  "tag_row new_id project_id tag_name =
     (\<lambda>c. if c = ''id'' then VInt new_id
          else if c = ''project_id'' then project_id
          else if c = ''tag_name'' then VStr tag_name
          else VNone)"

text \<open>
  One \<open>INSERT OR IGNORE\<close>: a row that breaks \<open>NOT NULL\<close> or \<open>UNIQUE(project_id, tag_name)\<close>
  is skipped; a broken foreign key is an error all the same.
\<close>

definition insert_tag :: "row list \<Rightarrow> val \<Rightarrow> ustr \<Rightarrow> row list \<Rightarrow> exn + row list" where
  "insert_tag parent project_id tag rows =
     (let tag_name = strip tag in
      if \<not> bindable project_id then Inl InterfaceError
      else if project_id = VNone then Inr rows
      else if \<exists>r \<in> set rows. r ''project_id'' = project_id \<and> r ''tag_name'' = VStr tag_name
      then Inr rows
      else if \<not> references project_id parent then Inl IntegrityError
      else Inr (rows @ [tag_row (next_id rows) project_id tag_name]))"

fun insert_tags :: "row list \<Rightarrow> val \<Rightarrow> ustr list \<Rightarrow> row list \<Rightarrow> exn + row list" where
  "insert_tags parent project_id [] rows = Inr rows"
| "insert_tags parent project_id (tag # tags) rows =
     (case insert_tag parent project_id tag rows of
        Inl e \<Rightarrow> Inl e
      | Inr rows' \<Rightarrow> insert_tags parent project_id tags rows')"

text \<open>The commit follows the loop, so an exception leaves the table as it was.\<close>

definition insert_project_tags :: "val \<Rightarrow> ustr list \<Rightarrow> db \<Rightarrow> exn + db" where
  "insert_project_tags project_id tags d =
     (case insert_tags (projects d) project_id tags (project_tags d) of
        Inl e \<Rightarrow> Inl e
      | Inr rows \<Rightarrow> Inr (d\<lparr>project_tags := rows\<rparr>))"

definition tag_count :: "db \<Rightarrow> val \<Rightarrow> ustr \<Rightarrow> nat" where
  "tag_count d project_id tag_name =
     length (filter (\<lambda>r. r ''project_id'' = project_id \<and> r ''tag_name'' = VStr tag_name)
                    (project_tags d))"

text \<open>The constraint \<open>UNIQUE(project_id, tag_name)\<close> as a property of a table.\<close>

definition tags_unique :: "row list \<Rightarrow> bool" where
  "tags_unique rows \<longleftrightarrow> distinct (map (\<lambda>r. (r ''project_id'', r ''tag_name'')) rows)"

section \<open>The scraper (scraper.py)\<close>

subsection \<open>Profile completeness\<close>

text \<open>
  The score block of \<open>scrape_author_profile\<close>: \<open>data\<close> is the profile dictionary built
  so far, \<open>stats\<close> the dictionary of integer statistics.
\<close>

definition profile_completeness :: "dict \<Rightarrow> (string \<Rightarrow> int option) \<Rightarrow> int" where
  "profile_completeness data stats =
     (let score = 0;
          score = (if truthy (dict_get data ''display_name'') then score + 15 else score);
          score = (if truthy (dict_get data ''location'') then score + 10 else score);
          score = (if truthy (dict_get data ''bio_text'') then score + 20 else score);
          score = (if truthy (dict_get data ''has_banner'') then score + 10 else score);
          score = (if truthy (dict_get data ''has_website_link'') then score + 10 else score);
          score = (if truthy (dict_get data ''hire_status'') then score + 10 else score);
          score = (if (case stats ''total_views'' of None \<Rightarrow> 0 | Some v \<Rightarrow> v) > 0
                   then score + 15 else score);
          score = (if truthy (dict_get data ''has_services'') then score + 10 else score)
      in min score 100)"

text \<open>The weight table of the specification, attribute by attribute.\<close>

definition weights :: "dict \<Rightarrow> (string \<Rightarrow> int option) \<Rightarrow> (bool \<times> int) list" where
  "weights data stats =
     [(truthy (dict_get data ''display_name''), 15),
      (truthy (dict_get data ''location''), 10),
      (truthy (dict_get data ''bio_text''), 20),
      (truthy (dict_get data ''has_banner''), 10),
      (truthy (dict_get data ''has_website_link''), 10),
      (truthy (dict_get data ''hire_status''), 10),
      (\<exists>v. stats ''total_views'' = Some v \<and> v > 0, 15),
      (truthy (dict_get data ''has_services''), 10)]"

subsection \<open>Project details\<close>

datatype nav_outcome = NavOk | NavTimeout | NavFail

text \<open>
  \<open>page.goto\<close>: a timeout raises Playwright's \<open>TimeoutError\<close> (\<open>PwTimeout\<close> in the
  source), any other failure its \<open>Error\<close>.
\<close>

fun goto :: "nav_outcome \<Rightarrow> exn + unit" where
  "goto NavOk = Inr ()"
| "goto NavTimeout = Inl PwTimeout"
| "goto NavFail = Inl PwError"

text \<open>
  The loop over the content blocks of a project page. The counters are
  \<open>(image_count, video_count, text_count, embed_count)\<close>; each block is given by its
  inner HTML.
\<close>

fun classify_modules :: "ucd \<Rightarrow> ustr list \<Rightarrow> int \<times> int \<times> int \<times> int \<Rightarrow> int \<times> int \<times> int \<times> int" where
  "classify_modules U [] counts = counts"
| "classify_modules U (mod_html # modules) (image_count, video_count, text_count, embed_count) =
     (if contains (asc ''<img'') mod_html \<or> contains (asc ''image'') (lower U mod_html)
      then classify_modules U modules (image_count + 1, video_count, text_count, embed_count)
      else if contains (asc ''<video'') mod_html \<or> contains (asc ''video'') (lower U mod_html)
      then classify_modules U modules (image_count, video_count + 1, text_count, embed_count)
      else if contains (asc ''<iframe'') mod_html \<or> contains (asc ''embed'') (lower U mod_html)
      then classify_modules U modules (image_count, video_count, text_count, embed_count + 1)
      else classify_modules U modules (image_count, video_count, text_count, embed_count))"

definition module_fields :: "ucd \<Rightarrow> ustr list \<Rightarrow> int \<Rightarrow> dict" where
  "module_fields U modules permalink_count =
     (case classify_modules U modules (0, 0, 0, 0) of
        (image_count, video_count, text_count, embed_count) \<Rightarrow>
          (if permalink_count > 0
           then [''module_count'' \<mapsto> VInt permalink_count,
                 ''image_count'' \<mapsto>
                    VInt (max image_count (permalink_count - video_count - text_count - embed_count))]
           else [''module_count'' \<mapsto> VInt (image_count + video_count + text_count + embed_count),
                 ''image_count'' \<mapsto> VInt image_count])
          (''video_count'' \<mapsto> VInt video_count,
           ''text_count'' \<mapsto> VInt text_count,
           ''embed_count'' \<mapsto> VInt embed_count))"

text \<open>
  What the browser shows for one project page: the outcome of the navigation under
  each wait condition, whether a later browser call raises, the tags, the content
  blocks, the number of permalink anchors, and the values of the keys that the rest
  of \<open>scrape_project_details\<close> writes (those of \<open>detail_keys\<close>).
\<close>

record project_page =
  pp_networkidle :: nav_outcome
  pp_domcontentloaded :: nav_outcome
  pp_failure :: "exn option"
  pp_fields :: dict
  pp_tags :: "ustr list"
  pp_modules :: "ustr list"
  pp_permalinks :: int

definition detail_keys :: "string set" where
  "detail_keys =
     {''published_date'', ''publish_day_of_week'', ''publish_hour'', ''tools_used'',
      ''description_length'', ''description_has_query_keywords'', ''has_external_links'',
      ''external_link_count'', ''comments_count'', ''co_owners_count'', ''is_featured'',
      ''creative_fields''}"

definition scrape_project_details :: "ucd \<Rightarrow> project_page \<Rightarrow> exn + dict" where
  "scrape_project_details U pg =
     (case (case goto (pp_networkidle pg) of
              Inl PwTimeout \<Rightarrow> goto (pp_domcontentloaded pg)
            | r \<Rightarrow> r) of
        Inl e \<Rightarrow> Inl e
      | Inr _ \<Rightarrow>
          (case pp_failure pg of
             Some e \<Rightarrow> Inl e
           | None \<Rightarrow>
               Inr ((pp_fields pg |` detail_keys)
                    (''tags'' \<mapsto> VList (map VStr (pp_tags pg)))
                    ++ module_fields U (pp_modules pg) (pp_permalinks pg))))"

subsection \<open>Properties of tables\<close>

text \<open>\<open>id INTEGER PRIMARY KEY\<close>: every row carries an integer id.\<close>

definition ids_ok :: "row list \<Rightarrow> bool" where
  "ids_ok rows \<longleftrightarrow> (\<forall>r \<in> set rows. \<exists>i. r ''id'' = VInt i)"

definition tag_rows_count :: "row list \<Rightarrow> val \<Rightarrow> ustr \<Rightarrow> nat" where
  "tag_rows_count rows p n = length (filter (\<lambda>r. r ''project_id'' = p \<and> r ''tag_name'' = VStr n) rows)"

section \<open>Example inputs\<close>

text \<open>Concrete stores, observations and pages at which the theorems below are instantiated.\<close>

definition empty_db :: db where
  "empty_db = \<lparr> snapshots = [], authors = [], author_snapshots = [], projects = [],
      project_tags = [], search_results = [], clock = (\<lambda>n. VInt (int n)), ticks = 0 \<rparr>"

definition obs1 :: dict where
  "obs1 = [''behance_id'' \<mapsto> VStr (asc ''77''), ''title'' \<mapsto> VStr (asc ''t''), ''image_count'' \<mapsto> VInt 3]"

definition obs2 :: dict where
  "obs2 = [''behance_id'' \<mapsto> VStr (asc ''77''), ''text_count'' \<mapsto> VInt 0]"

definition tagged_db :: db where
  "tagged_db = empty_db\<lparr>projects := [(\<lambda>c. VNone)(''id'' := VInt 1)]\<rparr>"

definition demo_page :: project_page where
  "demo_page = \<lparr> pp_networkidle = NavTimeout, pp_domcontentloaded = NavOk, pp_failure = None,
      pp_fields = [''text_count'' \<mapsto> VInt 7, ''is_featured'' \<mapsto> VInt 1],
      pp_tags = [asc ''ui''],
      pp_modules = [asc ''<p>text only</p>'', asc ''<img src=x>''], pp_permalinks = 0 \<rparr>"

section \<open>Properties\<close>

lemma classify_modules_text:
  "classify_modules U modules (i, v, t, e) = (i', v', t', e') \<Longrightarrow> t' = t"
  by (induction modules arbitrary: i v e) (auto split: if_splits)

lemma module_fields_text: "module_fields U modules n ''text_count'' = Some (VInt 0)"
proof -
  obtain i v t e where c: "classify_modules U modules (0, 0, 0, 0) = (i, v, t, e)"
    by (metis prod_cases4)
  then have "t = 0" by (rule classify_modules_text)
  with c show ?thesis by (simp add: module_fields_def)
qed

lemma weighted_step:
  "sum_list (map snd (filter fst ((b, k) # xs)))
     = (if b then k else (0::int)) + sum_list (map snd (filter fst xs))"
  by simp

lemma score_step: "(if b then s + k else s) = s + (if b then k else (0::int))"
  by simp

lemma capped_sum:
  fixes x1 :: int
  assumes "0 \<le> x1 \<and> x1 \<le> 15" "0 \<le> x2 \<and> x2 \<le> 10" "0 \<le> x3 \<and> x3 \<le> 20"
    "0 \<le> x4 \<and> x4 \<le> 10" "0 \<le> x5 \<and> x5 \<le> 10" "0 \<le> x6 \<and> x6 \<le> 10"
    "0 \<le> x7 \<and> x7 \<le> 15" "0 \<le> x8 \<and> x8 \<le> 10"
  shows "min (0 + x1 + x2 + x3 + x4 + x5 + x6 + x7 + x8) 100
           = x1 + (x2 + (x3 + (x4 + (x5 + (x6 + (x7 + (x8 + 0)))))))
     \<and> 0 \<le> min (0 + x1 + x2 + x3 + x4 + x5 + x6 + x7 + x8) 100
     \<and> min (0 + x1 + x2 + x3 + x4 + x5 + x6 + x7 + x8) 100 \<le> 100"
  using assms by linarith

lemma if_weight_bounds:
  "0 \<le> k \<Longrightarrow> 0 \<le> (if b then k else (0::int)) \<and> (if b then k else 0) \<le> k"
  by simp

text \<open>
  C9. The completeness score is the sum of the weights of the attributes that are
  present (display name 15, location 10, bio 20, banner 10, website link 10, hire
  status 10, nonzero total views 15, services 10) and lies between 0 and 100.
\<close>

theorem profile_completeness_weighted_sum:
  "profile_completeness data stats = sum_list (map snd (filter fst (weights data stats)))
   \<and> 0 \<le> profile_completeness data stats \<and> profile_completeness data stats \<le> 100"
proof -
  have views: "((case stats ''total_views'' of None \<Rightarrow> 0 | Some v \<Rightarrow> v) > 0)
      = (\<exists>v. stats ''total_views'' = Some v \<and> v > 0)"
    by (cases "stats ''total_views''") simp_all
  have w: "sum_list (map snd (filter fst [])) = (0::int)" by simp
  show ?thesis
    unfolding profile_completeness_def weights_def Let_def views score_step weighted_step w
    by (rule capped_sum) (rule if_weight_bounds, simp)+
qed

lemma find_map_same:
  "(\<And>x. x \<in> set xs \<Longrightarrow> P (f x) = P x) \<Longrightarrow> find P (map f xs) = map_option f (find P xs)"
  by (induction xs) auto

lemma find_append_new:
  "find P xs = None \<Longrightarrow> find P (xs @ [x]) = (if P x then Some x else None)"
  by (induction xs) (auto split: if_splits)

lemma behance_id_not_field: "''behance_id'' \<notin> set project_fields"
  by (simp add: project_fields_def)

lemma id_not_field: "''id'' \<notin> set project_fields"
  by (simp add: project_fields_def)

lemma project_update_keeps [simp]:
  "project_update data now r ''behance_id'' = r ''behance_id''"
  "project_update data now r ''id'' = r ''id''"
  "project_update data now r ''first_seen'' = r ''first_seen''"
  by (simp_all add: project_update_def project_fields_def)

lemma project_update_field:
  "f \<in> set project_fields \<Longrightarrow> project_update data now r f = coalesce (dict_get data f) (r f)"
  by (simp add: project_update_def)

lemma project_insert_field:
  "f \<in> set project_fields \<Longrightarrow> project_insert data b now i f = dict_get data f"
  by (simp add: project_insert_def)

lemma upsert_project_result:
  assumes "upsert_project data d0 = Inr (i, d1)" "data ''behance_id'' = Some b" "ids_ok (projects d0)"
  shows "case project_row d0 b of
           Some r \<Rightarrow> i = r ''id'' \<and> project_row d1 b = Some (project_update data (clock d0 (ticks d0)) r)
         | None \<Rightarrow> i = VInt (next_id (projects d0)) \<and> b \<noteq> VNone \<and>
                    project_row d1 b = Some (project_insert data b (clock d0 (ticks d0)) (next_id (projects d0)))"
proof (cases "project_row d0 b")
  case None
  with assms show ?thesis
    by (auto simp: upsert_project_def utcnow_def project_row_def Let_def find_append_new
        project_insert_def sql_eq_def behance_id_not_field split: if_splits)
next
  case (Some r)
  then have r: "r \<in> set (projects d0)" 
    by (auto simp: project_row_def find_Some_iff)
  with assms(3) obtain k where k: "r ''id'' = VInt k" by (auto simp: ids_ok_def)
  let ?f = "\<lambda>r'. if sql_eq (r' ''id'') (r ''id'') then project_update data (clock d0 (ticks d0)) r' else r'"
  have "find (\<lambda>r. sql_eq (r ''behance_id'') b) (map ?f (projects d0))
        = map_option ?f (find (\<lambda>r. sql_eq (r ''behance_id'') b) (projects d0))"
    by (rule find_map_same) simp
  with Some k assms show ?thesis
    by (auto simp: upsert_project_def utcnow_def project_row_def Let_def sql_eq_def split: if_splits)
qed

lemma upsert_project_ids_ok:
  assumes "upsert_project data d0 = Inr (i, d1)" "ids_ok (projects d0)"
  shows "ids_ok (projects d1)"
  using assms
  by (auto simp: upsert_project_def utcnow_def Let_def ids_ok_def project_insert_def id_not_field
      split: option.splits if_splits)

lemma upsert_project_succeeds:
  assumes "data ''behance_id'' = Some (VStr b)"
      and "\<forall>f \<in> set project_fields. bindable (dict_get data f)"
      and "references (dict_get data ''author_id'') (authors d)"
  shows "\<exists>i d'. upsert_project data d = Inr (i, d')"
  using assms
  by (cases "project_row (snd (utcnow d)) (VStr b)")
     (simp_all add: upsert_project_def Let_def split_beta utcnow_def)

lemma obs_bindable:
  "\<forall>f \<in> set project_fields. bindable (dict_get obs1 f)"
  "\<forall>f \<in> set project_fields. bindable (dict_get obs2 f)"
  by (simp_all add: project_fields_def obs1_def obs2_def dict_get_def)

text \<open>
  C3. After a project has been observed twice, the stored row is the field-wise
  coalesce of the two observations: over the 27 observation columns a non-null
  incoming value overwrites the stored one, a null incoming value keeps it, and no
  column that was non-null after the first upsert is null after the second. The row
  keeps its id, its \<open>behance_id\<close> and its \<open>first_seen\<close>; and when the first upsert
  created the row, it holds exactly the first observation.
\<close>

theorem coalesce_monotone:
  assumes run1: "upsert_project d1 db0 = Inr (i1, db1)"
      and run2: "upsert_project d2 db1 = Inr (i2, db2)"
      and b1: "d1 ''behance_id'' = Some b" and b2: "d2 ''behance_id'' = Some b"
      and ok: "ids_ok (projects db0)"
  shows "\<exists>r1 r2. project_row db1 b = Some r1 \<and> project_row db2 b = Some r2 \<and> i2 = i1
           \<and> r2 ''id'' = r1 ''id'' \<and> r2 ''behance_id'' = b \<and> r2 ''first_seen'' = r1 ''first_seen''
           \<and> (\<forall>f \<in> set project_fields.
                 r2 f = coalesce (dict_get d2 f) (r1 f)
               \<and> (dict_get d2 f \<noteq> VNone \<longrightarrow> r2 f = dict_get d2 f)
               \<and> (dict_get d2 f = VNone \<longrightarrow> r2 f = r1 f)
               \<and> (r1 f \<noteq> VNone \<longrightarrow> r2 f \<noteq> VNone)
               \<and> (project_row db0 b = None \<longrightarrow> r1 f = dict_get d1 f))"
proof -
  obtain r1 where r1: "project_row db1 b = Some r1" "i1 = r1 ''id''"
     "project_row db0 b = None \<longrightarrow>
        r1 = project_insert d1 b (clock db0 (ticks db0)) (next_id (projects db0))"
    using upsert_project_result [OF run1 b1 ok]
    by (cases "project_row db0 b") (auto simp: project_insert_def id_not_field)
  have same: "sql_eq (r1 ''behance_id'') b"
    using r1(1) by (auto simp: project_row_def find_Some_iff)
  have ok1: "ids_ok (projects db1)" by (rule upsert_project_ids_ok [OF run1 ok])
  from upsert_project_result [OF run2 b2 ok1] r1(1)
  have r2: "i2 = r1 ''id''" "project_row db2 b = Some (project_update d2 (clock db1 (ticks db1)) r1)"
    by simp_all
  let ?r2 = "project_update d2 (clock db1 (ticks db1)) r1"
  have fields: "\<forall>f \<in> set project_fields.
                 ?r2 f = coalesce (dict_get d2 f) (r1 f)
               \<and> (dict_get d2 f \<noteq> VNone \<longrightarrow> ?r2 f = dict_get d2 f)
               \<and> (dict_get d2 f = VNone \<longrightarrow> ?r2 f = r1 f)
               \<and> (r1 f \<noteq> VNone \<longrightarrow> ?r2 f \<noteq> VNone)
               \<and> (project_row db0 b = None \<longrightarrow> r1 f = dict_get d1 f)"
    using r1(3) by (simp add: project_update_field project_insert_field coalesce_def)
  have keys: "?r2 ''id'' = r1 ''id''" "?r2 ''behance_id'' = b" "?r2 ''first_seen'' = r1 ''first_seen''"
    using same by (simp_all add: sql_eq_def)
  from r1(1,2) r2 fields keys show ?thesis by blast
qed

theorem coalesce_monotone_witness:
  "\<exists>i1 db1 i2 db2 r1 r2.
      upsert_project obs1 empty_db = Inr (i1, db1) \<and> upsert_project obs2 db1 = Inr (i2, db2)
    \<and> project_row db1 (VStr (asc ''77'')) = Some r1 \<and> project_row db2 (VStr (asc ''77'')) = Some r2
    \<and> i2 = i1 \<and> r1 ''text_count'' = VNone \<and> r2 ''text_count'' = VInt 0
    \<and> r1 ''image_count'' = VInt 3 \<and> r2 ''image_count'' = VInt 3"
proof -
  have ok: "ids_ok (projects empty_db)" by (simp add: ids_ok_def empty_db_def)
  have none: "project_row empty_db (VStr (asc ''77'')) = None"
    by (simp add: project_row_def empty_db_def)
  obtain i1 db1 where run1: "upsert_project obs1 empty_db = Inr (i1, db1)"
    using upsert_project_succeeds [of obs1 "asc ''77''" empty_db] obs_bindable(1)
    by (auto simp: obs1_def references_def dict_get_def)
  have a: "authors db1 = []"
    using run1 by (auto simp: upsert_project_def utcnow_def Let_def empty_db_def split: option.splits if_splits)
  obtain i2 db2 where run2: "upsert_project obs2 db1 = Inr (i2, db2)"
    using upsert_project_succeeds [of obs2 "asc ''77''" db1] obs_bindable(2)
    by (auto simp: obs2_def references_def dict_get_def)
  have b1: "obs1 ''behance_id'' = Some (VStr (asc ''77''))" by (simp add: obs1_def)
  have b2: "obs2 ''behance_id'' = Some (VStr (asc ''77''))" by (simp add: obs2_def)
  have f: "''text_count'' \<in> set project_fields" "''image_count'' \<in> set project_fields"
    by (simp_all add: project_fields_def)
  from coalesce_monotone [OF run1 run2 b1 b2 ok] f none
  obtain r1 r2 where "project_row db1 (VStr (asc ''77'')) = Some r1"
     "project_row db2 (VStr (asc ''77'')) = Some r2" "i2 = i1"
     "r2 ''text_count'' = coalesce (dict_get obs2 ''text_count'') (r1 ''text_count'')"
     "r1 ''text_count'' = dict_get obs1 ''text_count''"
     "r2 ''image_count'' = coalesce (dict_get obs2 ''image_count'') (r1 ''image_count'')"
     "r1 ''image_count'' = dict_get obs1 ''image_count''"
    by blast
  with run1 run2 show ?thesis
    by (simp add: obs1_def obs2_def dict_get_def coalesce_def)
qed

lemma insert_tag_Inr:
  assumes "p \<noteq> VNone" "bindable p" "references p parent"
  shows "\<exists>rows'. insert_tag parent p t rows = Inr rows'"
  using assms by (simp add: insert_tag_def Let_def)

lemma tags_unique_count: "tags_unique rows \<Longrightarrow> tag_rows_count rows p n \<le> 1"
proof (induction rows)
  case Nil
  then show ?case by (simp add: tag_rows_count_def)
next
  case (Cons r rows)
  then have IH: "tag_rows_count rows p n \<le> 1" and
    new: "\<forall>x \<in> set rows. \<not> (x ''project_id'' = r ''project_id'' \<and> x ''tag_name'' = r ''tag_name'')"
    by (auto simp: tags_unique_def image_iff)
  show ?case
  proof (cases "r ''project_id'' = p \<and> r ''tag_name'' = VStr n")
    case True
    with new have "filter (\<lambda>r. r ''project_id'' = p \<and> r ''tag_name'' = VStr n) rows = []"
      by (auto simp: filter_empty_conv)
    with True show ?thesis by (simp add: tag_rows_count_def)
  next
    case False
    with IH show ?thesis by (auto simp: tag_rows_count_def)
  qed
qed

lemma tag_rows_count_pos: "(\<exists>r \<in> set rows. r ''project_id'' = p \<and> r ''tag_name'' = VStr n) \<longleftrightarrow> 0 < tag_rows_count rows p n"
  by (auto simp: tag_rows_count_def filter_empty_conv)

lemma tags_unique_snoc:
  "tags_unique (rows @ [x]) \<longleftrightarrow> tags_unique rows \<and>
     (\<forall>r \<in> set rows. \<not> (r ''project_id'' = x ''project_id'' \<and> r ''tag_name'' = x ''tag_name''))"
  by (auto simp: tags_unique_def image_iff)

lemma insert_tag_unique:
  "insert_tag parent p t rows = Inr rows' \<Longrightarrow> tags_unique rows \<Longrightarrow> tags_unique rows'"
  by (auto simp: insert_tag_def Let_def tags_unique_snoc tag_row_def split: if_splits)

lemma insert_tag_present:
  "insert_tag parent p t rows = Inr rows' \<Longrightarrow> p \<noteq> VNone \<Longrightarrow> 0 < tag_rows_count rows' p (strip t)"
  by (auto simp: insert_tag_def Let_def tag_rows_count_def tag_row_def filter_empty_conv split: if_splits)

lemma insert_tag_mono:
  "insert_tag parent p t rows = Inr rows' \<Longrightarrow> tag_rows_count rows p n \<le> tag_rows_count rows' p n"
  by (auto simp: insert_tag_def Let_def tag_rows_count_def split: if_splits)

lemma insert_tag_noop:
  "0 < tag_rows_count rows p (strip t) \<Longrightarrow> bindable p \<Longrightarrow> insert_tag parent p t rows = Inr rows"
  by (auto simp: insert_tag_def Let_def tag_rows_count_pos [symmetric])

lemma insert_tags_Inr:
  assumes "p \<noteq> VNone" "bindable p" "references p parent"
  shows "\<exists>rows'. insert_tags parent p ts rows = Inr rows'"
proof (induction ts arbitrary: rows)
  case Nil
  show ?case by simp
next
  case (Cons t ts)
  from insert_tag_Inr [OF assms] obtain rows1 where "insert_tag parent p t rows = Inr rows1" by blast
  with Cons show ?case by simp
qed

lemma insert_tags_unique:
  "insert_tags parent p ts rows = Inr rows' \<Longrightarrow> tags_unique rows \<Longrightarrow> tags_unique rows'"
  by (induction ts arbitrary: rows) (auto split: sum.splits dest: insert_tag_unique)

lemma insert_tags_mono:
  "insert_tags parent p ts rows = Inr rows' \<Longrightarrow> tag_rows_count rows p n \<le> tag_rows_count rows' p n"
proof (induction ts arbitrary: rows)
  case Nil
  then show ?case by simp
next
  case (Cons t ts)
  then obtain rows1 where 1: "insert_tag parent p t rows = Inr rows1"
    and 2: "insert_tags parent p ts rows1 = Inr rows'"
    by (auto split: sum.splits)
  from insert_tag_mono [OF 1] Cons.IH [OF 2] show ?case by (rule le_trans)
qed

lemma insert_tags_present:
  "insert_tags parent p ts rows = Inr rows' \<Longrightarrow> p \<noteq> VNone \<Longrightarrow> t \<in> set ts
   \<Longrightarrow> 0 < tag_rows_count rows' p (strip t)"
proof (induction ts arbitrary: rows)
  case Nil
  then show ?case by simp
next
  case (Cons a ts)
  then obtain rows1 where 1: "insert_tag parent p a rows = Inr rows1"
    and 2: "insert_tags parent p ts rows1 = Inr rows'"
    by (auto split: sum.splits)
  show ?case
  proof (cases "t = a")
    case True
    with insert_tag_present [OF 1 Cons.prems(2)] insert_tags_mono [OF 2, of "strip t"]
    show ?thesis by simp
  next
    case False
    with Cons.prems have "t \<in> set ts" by simp
    from Cons.IH [OF 2 Cons.prems(2) this] show ?thesis .
  qed
qed

lemma insert_tags_noop:
  "\<forall>t \<in> set ts. 0 < tag_rows_count rows p (strip t) \<Longrightarrow> bindable p \<Longrightarrow> insert_tags parent p ts rows = Inr rows"
  by (induction ts) (simp_all add: insert_tag_noop)

text \<open>
  C4. Inserting a tag for an existing project, once or several times in one call of
  \<open>insert_project_tags\<close>, succeeds and leaves exactly one \<open>project_tags\<close> row for the
  project and the tag (as stored, that is stripped of surrounding whitespace);
  inserting it again, alone or with the whole list, returns without error and leaves
  the store as it is.
\<close>

theorem tag_insertion_idempotent:
  assumes uniq: "tags_unique (project_tags d)"
      and proj: "\<exists>r \<in> set (projects d). r ''id'' = VInt p"
      and t: "t \<in> set tags"
  shows "\<exists>d1. insert_project_tags (VInt p) tags d = Inr d1
            \<and> tag_count d1 (VInt p) (strip t) = 1
            \<and> (strip t = t \<longrightarrow> tag_count d1 (VInt p) t = 1)
            \<and> insert_project_tags (VInt p) [t] d1 = Inr d1
            \<and> insert_project_tags (VInt p) tags d1 = Inr d1"
proof -
  have refs: "references (VInt p) (projects d)" using proj by (simp add: references_def)
  from insert_tags_Inr [of "VInt p" "projects d" tags "project_tags d"] refs
  obtain rows where rows: "insert_tags (projects d) (VInt p) tags (project_tags d) = Inr rows"
    by auto
  let ?d1 = "d\<lparr>project_tags := rows\<rparr>"
  have 1: "insert_project_tags (VInt p) tags d = Inr ?d1"
    using rows by (simp add: insert_project_tags_def)
  have pos: "\<forall>t \<in> set tags. 0 < tag_rows_count rows (VInt p) (strip t)"
    using insert_tags_present [OF rows] by simp
  have "tag_rows_count rows (VInt p) (strip t) \<le> 1"
    by (rule tags_unique_count) (rule insert_tags_unique [OF rows uniq])
  with pos t have one: "tag_rows_count rows (VInt p) (strip t) = 1" by (simp add: Suc_le_eq le_antisym)
  have 2: "insert_tags (projects d) (VInt p) tags rows = Inr rows"
    by (rule insert_tags_noop [OF pos]) simp
  have 3: "insert_tags (projects d) (VInt p) [t] rows = Inr rows"
    by (rule insert_tags_noop) (use pos t in simp_all)
  have 4: "insert_project_tags (VInt p) tags ?d1 = Inr ?d1"
    by (simp add: insert_project_tags_def 2 del: insert_tags.simps)
  have 5: "insert_project_tags (VInt p) [t] ?d1 = Inr ?d1"
    by (simp add: insert_project_tags_def 3 del: insert_tags.simps)
  have 6: "tag_count ?d1 (VInt p) (strip t) = 1"
    using one by (simp add: tag_count_def tag_rows_count_def)
  from 1 4 5 6 show ?thesis by auto
qed

theorem tag_insertion_idempotent_witness:
  "\<exists>d1. insert_project_tags (VInt 1) [asc '' ui '', asc ''ui''] tagged_db = Inr d1
       \<and> tag_count d1 (VInt 1) (asc ''ui'') = 1
       \<and> insert_project_tags (VInt 1) [asc ''ui''] d1 = Inr d1"
proof -
  have u: "tags_unique (project_tags tagged_db)"
    by (simp add: tagged_db_def empty_db_def tags_unique_def)
  have p: "\<exists>r \<in> set (projects tagged_db). r ''id'' = VInt 1"
    by (simp add: tagged_db_def)
  have t: "asc ''ui'' \<in> set [asc '' ui '', asc ''ui'']" by simp
  have s: "strip (asc ''ui'') = asc ''ui''"
    by (simp add: strip_def asc_def is_space_def)
  from tag_insertion_idempotent [OF u p t] s show ?thesis by auto
qed

text \<open>
  C10. Every project detail scrape that returns emits \<open>text_count = 0\<close>, whatever the
  page holds: the classification loop never touches the text counter. A project row
  written from such a scrape therefore stores 0 in \<open>text_count\<close>.
\<close>

theorem text_count_always_zero:
  assumes "scrape_project_details U pg = Inr details"
  shows "details ''text_count'' = Some (VInt 0)
       \<and> (\<forall>pdata a pid d i d'. ids_ok (projects d) \<and>
            upsert_project ((pdata ++ details)(''author_id'' \<mapsto> a, ''behance_id'' \<mapsto> pid)) d = Inr (i, d')
            \<longrightarrow> (\<exists>r. project_row d' pid = Some r \<and> r ''text_count'' = VInt 0))"
proof -
  have t: "details ''text_count'' = Some (VInt 0)"
    using assms
    by (auto simp: scrape_project_details_def map_add_def module_fields_text
        split: sum.splits option.splits)
  have f: "''text_count'' \<in> set project_fields" by (simp add: project_fields_def)
  {
    fix pdata a pid d i d'
    let ?data = "(pdata ++ details)(''author_id'' \<mapsto> a, ''behance_id'' \<mapsto> pid)"
    assume ok: "ids_ok (projects d)" and run: "upsert_project ?data d = Inr (i, d')"
    have g: "dict_get ?data ''text_count'' = VInt 0"
      using t by (simp add: dict_get_def map_add_def)
    have "?data ''behance_id'' = Some pid" by simp
    from upsert_project_result [OF run this ok] g
    have "\<exists>r. project_row d' pid = Some r \<and> r ''text_count'' = VInt 0"
      by (cases "project_row d pid")
         (simp_all add: project_update_field [OF f] project_insert_field [OF f] coalesce_def)
  }
  with t show ?thesis by blast
qed

theorem text_count_always_zero_witness:
  "\<exists>details. scrape_project_details basic_ucd demo_page = Inr details
     \<and> details ''text_count'' = Some (VInt 0) \<and> details ''image_count'' = Some (VInt 1)
     \<and> details ''module_count'' = Some (VInt 1)"
proof -
  have m: "classify_modules basic_ucd (pp_modules demo_page) (0, 0, 0, 0) = (1, 0, 0, 0)"
    by (simp add: demo_page_def basic_ucd_def asc_def starts_with_def basic_lower_def)
  obtain details where d: "scrape_project_details basic_ucd demo_page = Inr details"
    by (simp add: scrape_project_details_def demo_page_def)
  have "details ''image_count'' = Some (VInt 1) \<and> details ''module_count'' = Some (VInt 1)"
    using d m by (auto simp: scrape_project_details_def module_fields_def map_add_def demo_page_def)
  with text_count_always_zero [OF d] d show ?thesis by blast
qed

lemma bit_length_numeral [simp]:
  "bit_length 0 = 0"
  "bit_length (Suc 0) = Suc 0"
  "bit_length 1 = 1"
  "bit_length (numeral (Num.Bit0 n)) = Suc (bit_length (numeral n))"
  "bit_length (numeral (Num.Bit1 n)) = Suc (bit_length (numeral n))"
proof -
  show "bit_length 0 = 0" by (simp add: bit_length.simps)
  show 1: "bit_length (Suc 0) = Suc 0" by (simp add: bit_length.simps)
  then show "bit_length 1 = 1" by simp
  show "bit_length (numeral (Num.Bit0 n)) = Suc (bit_length (numeral n))"
    by (subst bit_length.simps) simp
  show "bit_length (numeral (Num.Bit1 n)) = Suc (bit_length (numeral n))"
    by (subst bit_length.simps) simp
qed

lemma float_1200: "py_int (fmul (to_double 12 10) 1000) = Inr 1200"
  by (simp add: to_double_def floor_log2_def round_half_even_def Let_def)

lemma float_2000000: "py_int (fmul (to_double 2 1) 1000000) = Inr 2000000"
  by (simp add: to_double_def floor_log2_def round_half_even_def Let_def)

lemma decimal_ascii: "ucd_ok U \<Longrightarrow> c < 128 \<Longrightarrow> decimal U c = basic_decimal c"
  by (simp add: ucd_ok_def)

lemma decimal_cyrillic: "ucd_ok U \<Longrightarrow> cyrillic c \<Longrightarrow> decimal U c = basic_decimal c"
  by (simp add: ucd_ok_def)

lemma ucd_ok_basic: "ucd_ok basic_ucd"
  by (auto simp: ucd_ok_def basic_ucd_def is_space_def basic_decimal_def)

lemma float_2000000_Suc:
  "py_int (fmul (to_double (Suc (Suc 0)) (Suc 0)) 1000000) = Inr 2000000"
  using float_2000000 by (simp add: numeral_2_eq_2)

lemmas parse_number_eval = parse_number_def strip_def replace_def match_magnitude_def
  numeric_char_def is_digit_def decimal_ascii decimal_cyrillic cyrillic_def basic_decimal_def
  is_space_def asc_def starts_with_def digits_value_def scaled_def py_float_def Let_def

text \<open>
  C1. \<open>_parse_number\<close> maps "2 075", "2,075", "1.2K" and "2" followed by U+041C to 2075,
  2075, 1200 and 2000000, and absent, empty or digit-free text to 0. It does raise,
  though: when the text starts with digits and dots that \<open>float\<close> rejects and a
  magnitude letter follows (".k", "1.2.3K"), the \<open>ValueError\<close> of \<open>float\<close> leaves the
  function.
\<close>

theorem parse_number_raises_on_malformed_decimal:
  assumes "ucd_ok U"
  shows "parse_number U (Some (asc ''2 075'')) = Inr 2075
       \<and> parse_number U (Some (asc ''2,075'')) = Inr 2075
       \<and> parse_number U (Some (asc ''1.2K'')) = Inr 1200
       \<and> parse_number U (Some (asc ''2'' @ [1052])) = Inr 2000000
       \<and> parse_number U None = Inr 0
       \<and> parse_number U (Some []) = Inr 0
       \<and> parse_number U (Some (asc ''n/a'')) = Inr 0
       \<and> parse_number U (Some (asc ''.k'')) = Inl ValueError
       \<and> parse_number U (Some (asc ''1.2.3K'')) = Inl ValueError"
proof -
  have 1: "parse_number U (Some (asc ''2 075'')) = Inr 2075"
    using assms by (simp add: parse_number_eval)
  have 2: "parse_number U (Some (asc ''2,075'')) = Inr 2075"
    using assms by (simp add: parse_number_eval)
  have 3: "parse_number U (Some (asc ''1.2K'')) = Inr 1200"
    using assms by (simp add: parse_number_eval float_1200)
  have 4: "parse_number U (Some (asc ''2'' @ [1052])) = Inr 2000000"
    using assms by (simp add: parse_number_eval float_2000000_Suc)
  have 5: "parse_number U None = Inr 0"
    by (simp add: parse_number_def)
  have 6: "parse_number U (Some []) = Inr 0"
    by (simp add: parse_number_def)
  have 7: "parse_number U (Some (asc ''n/a'')) = Inr 0"
    using assms by (simp add: parse_number_eval)
  have 8: "parse_number U (Some (asc ''.k'')) = Inl ValueError"
    using assms by (simp add: parse_number_eval)
  have 9: "parse_number U (Some (asc ''1.2.3K'')) = Inl ValueError"
    using assms by (simp add: parse_number_eval)
  show ?thesis
    by (intro conjI) (fact 1 2 3 4 5 6 7 8 9)+
qed

theorem parse_number_raises_on_malformed_decimal_witness:
  "parse_number basic_ucd (Some (asc ''1.2K'')) = Inr 1200
   \<and> parse_number basic_ucd (Some (asc ''1.2.3K'')) = Inl ValueError"
  using parse_number_raises_on_malformed_decimal [OF ucd_ok_basic] by blast

end
